theory Spec2Isabelle
  imports Main
begin

section \<open>The store: tables of the relational backend\<close>

text \<open>
  The handlers of \<^verbatim>\<open>src/controllers/orderController.js\<close> keep no state of their
  own: every read and write goes to the hosted store. The store is modelled as a record
  of its tables, and each handler as a function from the store (and the request) to a
  response and the store it leaves behind.

  Rows carry the columns the handlers read or write; \<open>created_at\<close> and the joined
  user and image columns of the read handlers are left out.

  Prices and totals are JavaScript numbers. Their type is the type variable \<open>'n\<close>,
  and the arithmetic \<open>createOrder\<close> does on them is a parameter (\<open>number_ops\<close>
  below), so that nothing proved here rests on that arithmetic being exact. Stock counts
  and quantities are integers; the order handlers only compare them.
\<close>

record 'n product =
  name :: string
  price :: 'n
  stock :: int

record product_size =
  size_id :: nat
  size_stock :: int

record 'n order =
  user_id :: nat
  total_price :: 'n
  status :: string

text \<open>
  A line item: a row of \<open>order_items\<close> restricted to the columns
  \<open>product_id, size, quantity\<close> that the stock loops read. \<open>size_opt\<close> is the
  source's \<open>size\<close>: a string or \<open>null\<close>.
\<close>

record line_item =
  product_id :: nat
  size_opt :: "string option"
  quantity :: int

text \<open>
  A requested item of \<open>req.body.items\<close>: the line item plus whatever price the client
  chose to send along (\<open>client_price\<close>); \<open>createOrder\<close> never reads it.
\<close>

record req_item = line_item +
  client_price :: "int option"

text \<open>An element of \<open>verifiedItems\<close>: the line item with the price read from the catalog.\<close>

record 'n verified_item = line_item +
  item_price :: 'n

text \<open>A row of \<open>order_items\<close>.\<close>

record 'n order_item = "'n verified_item" +
  order_id :: nat

text \<open>A row of \<open>cart_items\<close>.\<close>

record cart_item =
  cart_item_id :: nat
  cart_user_id :: nat
  cart_product_id :: nat
  cart_quantity :: int
  cart_size :: "string option"

text \<open>
  \<open>next_order_id\<close> and \<open>next_cart_item_id\<close> are the store's sequences for
  \<open>orders.order_id\<close> and \<open>cart_items.item_id\<close>: the schema is not part of the
  sources, the handlers only read the ids back from the inserts.
\<close>

record 'n store =
  products :: "nat \<rightharpoonup> 'n product"
  product_sizes :: "nat \<times> string \<rightharpoonup> product_size"
  orders :: "nat \<rightharpoonup> 'n order"
  order_items :: "'n order_item list"
  cart_items :: "cart_item list"
  next_order_id :: nat
  next_cart_item_id :: nat

text \<open>\<open>req.user\<close>, as the authentication middleware attaches it.\<close>

record user =
  req_user_id :: nat
  role :: string

subsection \<open>Numbers\<close>

text \<open>
  The three uses of number arithmetic in \<open>createOrder\<close>: \<open>let totalPrice = 0\<close>,
  \<open>product.price * item.quantity\<close> and \<open>totalPrice += itemPrice\<close>.
\<close>

record 'n number_ops =
  js_zero :: 'n
  js_add :: "'n \<Rightarrow> 'n \<Rightarrow> 'n"
  js_mul :: "'n \<Rightarrow> int \<Rightarrow> 'n"

text \<open>
  For prices that are whole numbers the operations are those of IEEE 754 doubles on
  integer-valued operands: the exact result rounded to 53 significant bits, ties to
  even (results beyond the range of doubles apart). \<open>shift_of m\<close> is the number of
  low bits of \<open>m\<close> that a double cannot hold.
\<close>

function shift_of :: "nat \<Rightarrow> nat" where
  "shift_of m = (if m < 9007199254740992 then 0 else Suc (shift_of (m div 2)))"
  by pat_completeness auto
termination
  by (relation "measure id") auto

definition js_round :: "int \<Rightarrow> int" where
  "js_round n =
     (let a = nat \<bar>n\<bar>; sh = shift_of a; q = a div 2 ^ sh; r = a mod 2 ^ sh;
          m = (if 2 ^ sh < 2 * r \<or> (2 * r = 2 ^ sh \<and> odd q) then Suc q else q)
      in sgn n * int (m * 2 ^ sh))"

definition double_int :: "int number_ops" where
  "double_int =
     \<lparr>js_zero = 0,
      js_add = (\<lambda>a b. js_round (a + b)),
      js_mul = (\<lambda>p q. js_round (p * js_round q))\<rparr>"

subsection \<open>Store failures\<close>

text \<open>
  Every store call returns \<open>{data, error}\<close>. Which calls fail is outside the program,
  so it is a parameter of every handler: one flag per error variable of the source.
  \<open>queryError\<close> is a failure of \<open>getOrderById\<close>'s first query other than
  \<open>PGRST116\<close> (no row); in \<open>createOrder\<close>, \<open>deleteError\<close> is a failure of the
  compensating delete, whose result the source never inspects.
\<close>

record faults =
  productError :: "nat \<Rightarrow> bool"
  sizeError :: "nat \<Rightarrow> string \<Rightarrow> bool"
  orderError :: bool
  itemsError :: bool
  deleteError :: bool
  insertError :: bool
  checkError :: bool
  updateError :: bool
  queryError :: bool

section \<open>Responses\<close>

text \<open>
  A response is the HTTP status given to \<open>res.status\<close> and the JSON body. Bodies are a
  datatype with one constructor per message of the source, carrying the values the
  message interpolates.
\<close>

datatype 'n body =
    ValidationErrors
  | ProductNotFound nat
  | SizeNotFound string string
  | InsufficientStockSize string string
  | InsufficientStock string
  | ServerError string
  | OrderCreated nat 'n
  | OrderNotFound
  | InvalidTransition string string
  | StatusUpdated "'n order"
  | Forbidden
  | NotCancellable string
  | OrderCancelled "'n order"
  | OrderDetail "'n order" "'n order_item list"
  | Unauthorized
  | ForbiddenRole

datatype 'n response = Response nat "'n body"

fun http_status :: "'n response \<Rightarrow> nat" where
  "http_status (Response c b) = c"

fun json :: "'n response \<Rightarrow> 'n body" where
  "json (Response c b) = b"

section \<open>Store primitives\<close>

text \<open>
  \<open>.single()\<close> on a primary-key lookup: the row, or nothing when the call fails or no
  row matches (the source tests \<open>error || !data\<close>).
\<close>

definition select_product :: "faults \<Rightarrow> 'n store \<Rightarrow> nat \<Rightarrow> 'n product option" where
  "select_product f s pid = (if productError f pid then None else products s pid)"

definition select_size :: "faults \<Rightarrow> 'n store \<Rightarrow> nat \<Rightarrow> string \<Rightarrow> product_size option" where
  "select_size f s pid sz = (if sizeError f pid sz then None else product_sizes s (pid, sz))"

definition select_order :: "bool \<Rightarrow> 'n store \<Rightarrow> nat \<Rightarrow> 'n order option" where
  "select_order err s oid = (if err then None else orders s oid)"

text \<open>
  Insert into \<open>orders\<close>: the store draws the id from its sequence; the insert fails on a
  store error or when the id is taken.
\<close>

definition insert_order :: "faults \<Rightarrow> 'n store \<Rightarrow> 'n order \<Rightarrow> (nat \<times> 'n store) option" where
  "insert_order f s row =
     (if orderError f \<or> orders s (next_order_id s) \<noteq> None then None
      else Some (next_order_id s,
                 s\<lparr>orders := (orders s)(next_order_id s \<mapsto> row),
                   next_order_id := Suc (next_order_id s)\<rparr>))"

definition insert_order_items :: "faults \<Rightarrow> 'n store \<Rightarrow> 'n order_item list \<Rightarrow> 'n store option" where
  "insert_order_items f s rows =
     (if itemsError f then None else Some (s\<lparr>order_items := order_items s @ rows\<rparr>))"

definition delete_order :: "faults \<Rightarrow> 'n store \<Rightarrow> nat \<Rightarrow> 'n store" where
  "delete_order f s oid = (if deleteError f then s else s\<lparr>orders := (orders s)(oid := None)\<rparr>)"

definition update_order_status :: "'n store \<Rightarrow> nat \<Rightarrow> 'n order \<Rightarrow> string \<Rightarrow> 'n order \<times> 'n store" where
  "update_order_status s oid row st =
     (row\<lparr>status := st\<rparr>, s\<lparr>orders := (orders s)(oid \<mapsto> row\<lparr>status := st\<rparr>)\<rparr>)"

definition select_order_items :: "'n store \<Rightarrow> nat \<Rightarrow> 'n order_item list" where
  "select_order_items s oid = filter (\<lambda>row. order_id row = oid) (order_items s)"

subsection \<open>Stock adjustment\<close>

text \<open>
  The value a handler sends for a column. \<open>supabase.rpc('decrement', { x: item.quantity })\<close>
  returns a query builder; the handlers do not await it, so no store procedure is run,
  and the builder object itself stands as the value of \<open>stock\<close> in the body of the
  update (lines 408, 415, 586, 593).
\<close>

datatype sent_value = Number int | QueryBuilder string int

text \<open>
  \<open>stock\<close> is a numeric column (the handlers compare it with quantities, the product
  route validates it with \<open>isInt\<close>): an object is no value for it, and the store
  refuses the update.
\<close>

fun column_value :: "sent_value \<Rightarrow> int option" where
  "column_value (Number n) = Some n"
| "column_value (QueryBuilder fn x) = None"

text \<open>
  \<open>.from('products').update({ stock: v }).eq('product_id', pid)\<close> and its counterpart
  on \<open>product_sizes\<close>. The handlers await these calls and never look at the result,
  so a refused update, like one that matches no row, just leaves the store as it was.
\<close>

definition update_product_stock :: "'n store \<Rightarrow> nat \<Rightarrow> sent_value \<Rightarrow> 'n store" where
  "update_product_stock s pid v =
     (case column_value v of
        None \<Rightarrow> s
      | Some n \<Rightarrow>
          (case products s pid of
             None \<Rightarrow> s
           | Some p \<Rightarrow> s\<lparr>products := (products s)(pid \<mapsto> p\<lparr>stock := n\<rparr>)\<rparr>))"

definition update_size_stock :: "'n store \<Rightarrow> nat \<Rightarrow> string \<Rightarrow> sent_value \<Rightarrow> 'n store" where
  "update_size_stock s pid sz v =
     (case column_value v of
        None \<Rightarrow> s
      | Some n \<Rightarrow>
          (case product_sizes s (pid, sz) of
             None \<Rightarrow> s
           | Some row \<Rightarrow> s\<lparr>product_sizes := (product_sizes s)((pid, sz) \<mapsto> row\<lparr>size_stock := n\<rparr>)\<rparr>))"

text \<open>
  JavaScript's \<open>item.size || null\<close>, also the test \<open>if (item.size)\<close>: \<open>null\<close>,
  \<open>undefined\<close> and the empty string are falsy.
\<close>

definition size_or_null :: "string option \<Rightarrow> string option" where
  "size_or_null sz = (case sz of None \<Rightarrow> None | Some l \<Rightarrow> if l = [] then None else Some l)"

text \<open>
  One iteration of the stock loops of \<open>createOrder\<close> and \<open>cancelOrder\<close>: the per-size
  row when the item has a size, the product's general stock otherwise; \<open>fn\<close> is the
  name given to \<open>supabase.rpc\<close>.
\<close>

definition update_stock :: "string \<Rightarrow> 'a line_item_scheme \<Rightarrow> 'n store \<Rightarrow> 'n store" where
  "update_stock fn item s =
     (case size_or_null (size_opt item) of
        Some sz \<Rightarrow> update_size_stock s (product_id item) sz (QueryBuilder fn (quantity item))
      | None \<Rightarrow> update_product_stock s (product_id item) (QueryBuilder fn (quantity item)))"

text \<open>\<open>createOrder\<close>, lines 402-418: \<open>for (const item of verifiedItems)\<close>.\<close>

fun reserve :: "'a line_item_scheme list \<Rightarrow> 'n store \<Rightarrow> 'n store" where
  "reserve [] s = s"
| "reserve (item # items) s = reserve items (update_stock ''decrement'' item s)"

text \<open>\<open>cancelOrder\<close>, lines 579-597: \<open>for (const item of orderItems)\<close>.\<close>

fun release :: "'a line_item_scheme list \<Rightarrow> 'n store \<Rightarrow> 'n store" where
  "release [] s = s"
| "release (item # items) s = release items (update_stock ''increment'' item s)"

section \<open>updateOrderStatus\<close>

text \<open>The route's \<open>statusValidation\<close>: \<open>body('status').isIn([...])\<close>.\<close>

definition statusValidation :: "string \<Rightarrow> bool" where
  "statusValidation st =
     (st \<in> set [''pending'', ''processing'', ''shipped'', ''delivered'',
                ''completed'', ''cancelled'', ''returned'', ''refunded''])"

definition validStatusTransitions :: "(string \<times> string list) list" where
  "validStatusTransitions =
     [(''pending'', [''processing'', ''cancelled'']),
      (''processing'', [''shipped'', ''cancelled'']),
      (''shipped'', [''delivered'', ''returned'']),
      (''delivered'', [''completed'', ''returned'']),
      (''returned'', [''refunded'']),
      (''cancelled'', []),
      (''completed'', []),
      (''refunded'', [])]"

text \<open>
  \<open>validStatusTransitions[orderExists.status].includes(status)\<close>: for a stored status
  that is no key of the table the lookup is \<open>undefined\<close>, \<open>.includes\<close> throws, and the
  handler's \<open>catch\<close> answers 500.
\<close>

definition updateOrderStatus :: "faults \<Rightarrow> 'n store \<Rightarrow> nat \<Rightarrow> string \<Rightarrow> 'n response \<times> 'n store" where
  "updateOrderStatus f s oid st =
     (if \<not> statusValidation st then (Response 400 ValidationErrors, s)
      else case select_order (checkError f) s oid of
        None \<Rightarrow> (Response 404 OrderNotFound, s)
      | Some orderExists \<Rightarrow>
          (case map_of validStatusTransitions (status orderExists) of
             None \<Rightarrow> (Response 500 (ServerError ''Server error''), s)
           | Some allowed \<Rightarrow>
               if st \<notin> set allowed
               then (Response 400 (InvalidTransition (status orderExists) st), s)
               else if updateError f
               then (Response 500 (ServerError ''Server error saat mengupdate status order''), s)
               else (case update_order_status s oid orderExists st of
                       (updatedOrder, s') \<Rightarrow> (Response 200 (StatusUpdated updatedOrder), s'))))"

text \<open>
  The transition table as the specification prints it (4.1), one line per source state.
\<close>

definition spec_allowed :: "string \<Rightarrow> string set" where
  "spec_allowed src =
     (if src = ''pending'' then {''processing'', ''cancelled''}
      else if src = ''processing'' then {''shipped'', ''cancelled''}
      else if src = ''shipped'' then {''delivered'', ''returned''}
      else if src = ''delivered'' then {''completed'', ''returned''}
      else if src = ''returned'' then {''refunded''}
      else {})"

definition spec_statuses :: "string set" where
  "spec_statuses = {''pending'', ''processing'', ''shipped'', ''delivered'',
                    ''completed'', ''cancelled'', ''returned'', ''refunded''}"

section \<open>cancelOrder\<close>

definition cancelOrder :: "faults \<Rightarrow> 'n store \<Rightarrow> user \<Rightarrow> nat \<Rightarrow> 'n response \<times> 'n store" where
  "cancelOrder f s usr oid =
     (case select_order (orderError f) s oid of
        None \<Rightarrow> (Response 404 OrderNotFound, s)
      | Some ord \<Rightarrow>
          if role usr \<noteq> ''admin'' \<and> user_id ord \<noteq> req_user_id usr
          then (Response 403 Forbidden, s)
          else if status ord \<noteq> ''pending'' \<and> status ord \<noteq> ''processing''
          then (Response 400 (NotCancellable (status ord)), s)
          else if updateError f
          then (Response 500 (ServerError ''Server error saat membatalkan order''), s)
          else (case update_order_status s oid ord ''cancelled'' of
                  (updatedOrder, s') \<Rightarrow>
                    (Response 200 (OrderCancelled updatedOrder),
                     if itemsError f then s' else release (select_order_items s' oid) s')))"

section \<open>getOrderById\<close>

text \<open>
  The query \<open>.eq('order_id', id).single()\<close>, with \<open>.eq('user_id', userId)\<close> added for
  a caller who is not an admin.
\<close>

definition scoped_order :: "'n store \<Rightarrow> user \<Rightarrow> nat \<Rightarrow> 'n order option" where
  "scoped_order s usr oid =
     (case orders s oid of
        None \<Rightarrow> None
      | Some row \<Rightarrow>
          if role usr \<noteq> ''admin'' \<and> user_id row \<noteq> req_user_id usr then None else Some row)"

definition getOrderById :: "faults \<Rightarrow> 'n store \<Rightarrow> user \<Rightarrow> nat \<Rightarrow> 'n response" where
  "getOrderById f s usr oid =
     (if queryError f then Response 500 (ServerError ''Server error saat mengambil order'')
      else case scoped_order s usr oid of
        None \<Rightarrow> Response 404 OrderNotFound
      | Some ord \<Rightarrow>
          if itemsError f then Response 500 (ServerError ''Server error saat mengambil item order'')
          else Response 200 (OrderDetail ord (select_order_items s oid)))"

section \<open>createOrder\<close>

text \<open>
  The route's \<open>orderValidation\<close>: at least one item, every \<open>product_id\<close> and every
  \<open>quantity\<close> an integer of at least 1 (that \<open>size\<close>, when sent, is a string is in
  the type).
\<close>

definition orderValidation :: "req_item list \<Rightarrow> bool" where
  "orderValidation items =
     (items \<noteq> [] \<and> list_all (\<lambda>item. 1 \<le> product_id item \<and> 1 \<le> quantity item) items)"

text \<open>
  The checks of one iteration of the first loop (lines 297-341): the product read from
  the catalog, or the response the handler returns at once.
\<close>

definition verify_item :: "faults \<Rightarrow> 'n store \<Rightarrow> req_item \<Rightarrow> 'n response + 'n product" where
  "verify_item f s item =
     (case select_product f s (product_id item) of
        None \<Rightarrow> Inl (Response 400 (ProductNotFound (product_id item)))
      | Some p \<Rightarrow>
          (case size_or_null (size_opt item) of
             Some sz \<Rightarrow>
               (case select_size f s (product_id item) sz of
                  None \<Rightarrow> Inl (Response 400 (SizeNotFound sz (name p)))
                | Some sizeData \<Rightarrow>
                    if size_stock sizeData < quantity item
                    then Inl (Response 400 (InsufficientStockSize (name p) sz))
                    else Inr p)
           | None \<Rightarrow>
               if stock p < quantity item
               then Inl (Response 400 (InsufficientStock (name p)))
               else Inr p))"

text \<open>
  The loop, with its two accumulators \<open>totalPrice\<close> and \<open>verifiedItems\<close>
  (lines 343-352): \<open>itemPrice = product.price * item.quantity\<close> and
  \<open>totalPrice += itemPrice\<close> in the arithmetic \<open>ar\<close>.
\<close>

fun verify_items ::
  "'n number_ops \<Rightarrow> faults \<Rightarrow> 'n store \<Rightarrow> req_item list \<Rightarrow> 'n \<Rightarrow> 'n verified_item list
     \<Rightarrow> 'n response + ('n \<times> 'n verified_item list)" where
  "verify_items ar f s [] totalPrice verifiedItems = Inr (totalPrice, verifiedItems)"
| "verify_items ar f s (item # items) totalPrice verifiedItems =
     (case verify_item f s item of
        Inl r \<Rightarrow> Inl r
      | Inr p \<Rightarrow>
          verify_items ar f s items (js_add ar totalPrice (js_mul ar (price p) (quantity item)))
            (verifiedItems @
               [\<lparr>product_id = product_id item, size_opt = size_or_null (size_opt item),
                 quantity = quantity item, item_price = price p\<rparr>]))"

definition to_order_item :: "nat \<Rightarrow> 'n verified_item \<Rightarrow> 'n order_item" where
  "to_order_item oid item =
     \<lparr>product_id = product_id item, size_opt = size_opt item, quantity = quantity item,
      item_price = item_price item, order_id = oid\<rparr>"

definition createOrder ::
  "'n number_ops \<Rightarrow> faults \<Rightarrow> 'n store \<Rightarrow> user \<Rightarrow> req_item list \<Rightarrow> 'n response \<times> 'n store" where
  "createOrder ar f s usr items =
     (if \<not> orderValidation items then (Response 400 ValidationErrors, s)
      else case verify_items ar f s items (js_zero ar) [] of
        Inl r \<Rightarrow> (r, s)
      | Inr (totalPrice, verifiedItems) \<Rightarrow>
          (case insert_order f s
                  \<lparr>user_id = req_user_id usr, total_price = totalPrice, status = ''pending''\<rparr> of
             None \<Rightarrow> (Response 500 (ServerError ''Server error saat membuat order''), s)
           | Some (new_id, s1) \<Rightarrow>
               (case insert_order_items f s1 (map (to_order_item new_id) verifiedItems) of
                  None \<Rightarrow>
                    (Response 500 (ServerError ''Server error saat menambahkan item order''),
                     delete_order f s1 new_id)
                | Some s2 \<Rightarrow>
                    (Response 201 (OrderCreated new_id totalPrice), reserve verifiedItems s2))))"

section \<open>The admin route\<close>

text \<open>
  \<open>roleMiddleware.authorize\<close>: \<open>None\<close> stands for \<open>next()\<close>. The route
  \<open>PUT /:id/status\<close> runs \<open>authenticate, authorize(['admin']), statusValidation,
  updateOrderStatus\<close>; \<open>put_order_status\<close> is that chain for a caller the
  authentication middleware has accepted.
\<close>

definition authorize :: "string list \<Rightarrow> user option \<Rightarrow> 'n response option" where
  "authorize roles u =
     (case u of
        None \<Rightarrow> Some (Response 401 Unauthorized)
      | Some usr \<Rightarrow>
          if roles \<noteq> [] \<and> role usr \<notin> set roles then Some (Response 403 ForbiddenRole)
          else None)"

definition put_order_status ::
  "faults \<Rightarrow> 'n store \<Rightarrow> user \<Rightarrow> nat \<Rightarrow> string \<Rightarrow> 'n response \<times> 'n store" where
  "put_order_status f s usr oid st =
     (case authorize [''admin''] (Some usr) of
        Some r \<Rightarrow> (r, s)
      | None \<Rightarrow> updateOrderStatus f s oid st)"

section \<open>The cart handlers\<close>

text \<open>
  The four handlers of \<^verbatim>\<open>src/controllers/cartController.js\<close> that write:
  the status they answer with and the store they leave. Their JSON bodies are left
  out. The other four handlers of the file (\<open>getCartItems\<close>, \<open>getCartCount\<close>,
  \<open>getCartSummary\<close>, \<open>getCartCheckout\<close>) only select.
\<close>

text \<open>\<open>.eq('item_id', id).eq('user_id', userId).single()\<close>.\<close>

definition find_cart_item :: "'n store \<Rightarrow> nat \<Rightarrow> nat \<Rightarrow> cart_item option" where
  "find_cart_item s iid uid =
     (case filter (\<lambda>row. cart_item_id row = iid \<and> cart_user_id row = uid) (cart_items s) of
        [row] \<Rightarrow> Some row
      | _ \<Rightarrow> None)"

definition set_cart_quantity :: "'n store \<Rightarrow> nat \<Rightarrow> int \<Rightarrow> 'n store" where
  "set_cart_quantity s iid q =
     s\<lparr>cart_items :=
         map (\<lambda>row. if cart_item_id row = iid then row\<lparr>cart_quantity := q\<rparr> else row)
           (cart_items s)\<rparr>"

text \<open>
  The stock check of the cart handlers for quantity \<open>q\<close>: the status to answer with,
  if any. \<open>missing\<close> is the status for a size row that cannot be read: 404 where the
  handler tests for it, 500 where it reads \<open>sizeData.stock\<close> untested.
\<close>

definition cart_stock_check ::
  "faults \<Rightarrow> 'n store \<Rightarrow> nat \<Rightarrow> string option \<Rightarrow> int \<Rightarrow> int \<Rightarrow> nat \<Rightarrow> nat option" where
  "cart_stock_check f s pid sz general q missing =
     (case size_or_null sz of
        Some l \<Rightarrow>
          (case select_size f s pid l of
             None \<Rightarrow> Some missing
           | Some sizeData \<Rightarrow> if size_stock sizeData < q then Some 400 else None)
      | None \<Rightarrow> if general < q then Some 400 else None)"

text \<open>
  \<open>.eq('size', size || null)\<close>: the filter compares the column with the text of the
  value, so for an item without a size it looks for the text \<open>null\<close>.
\<close>

definition eq_size :: "string option \<Rightarrow> string" where
  "eq_size sz = (case size_or_null sz of None \<Rightarrow> ''null'' | Some l \<Rightarrow> l)"

definition addToCart ::
  "faults \<Rightarrow> 'n store \<Rightarrow> user \<Rightarrow> nat \<Rightarrow> int \<Rightarrow> string option \<Rightarrow> nat \<times> 'n store" where
  "addToCart f s usr pid qty sz =
     (if \<not> (1 \<le> pid \<and> 1 \<le> qty) then (400, s)
      else case select_product f s pid of
        None \<Rightarrow> (404, s)
      | Some p \<Rightarrow>
          (case cart_stock_check f s pid sz (stock p) qty 404 of
             Some code \<Rightarrow> (code, s)
           | None \<Rightarrow>
               if checkError f then (500, s)
               else
                 (case filter (\<lambda>row. cart_user_id row = req_user_id usr \<and>
                                      cart_product_id row = pid \<and>
                                      cart_size row = Some (eq_size sz)) (cart_items s) of
                    [] \<Rightarrow>
                      if insertError f then (500, s)
                      else (200,
                            s\<lparr>cart_items := cart_items s @
                                 [\<lparr>cart_item_id = next_cart_item_id s,
                                   cart_user_id = req_user_id usr, cart_product_id = pid,
                                   cart_quantity = qty, cart_size = size_or_null sz\<rparr>],
                              next_cart_item_id := Suc (next_cart_item_id s)\<rparr>)
                  | [existingItem] \<Rightarrow>
                      (case cart_stock_check f s pid sz (stock p)
                              (cart_quantity existingItem + qty) 500 of
                         Some code \<Rightarrow> (code, s)
                       | None \<Rightarrow>
                           if updateError f then (500, s)
                           else (200,
                                 set_cart_quantity s (cart_item_id existingItem)
                                   (cart_quantity existingItem + qty)))
                  | _ \<Rightarrow> (500, s))))"

text \<open>
  \<open>updateCartItem\<close> reads the product through the join \<open>products(price, stock)\<close> of
  its first query; where that is \<open>null\<close>, reading \<open>cartItem.products.stock\<close> or
  \<open>.price\<close> throws and the handler's \<open>catch\<close> answers 500, for the price after the
  update has been made.
\<close>

definition updateCartItem ::
  "faults \<Rightarrow> 'n store \<Rightarrow> user \<Rightarrow> nat \<Rightarrow> int \<Rightarrow> nat \<times> 'n store" where
  "updateCartItem f s usr iid qty =
     (if \<not> 1 \<le> qty then (400, s)
      else case (if checkError f then None else find_cart_item s iid (req_user_id usr)) of
        None \<Rightarrow> (404, s)
      | Some cartItem \<Rightarrow>
          (case (case size_or_null (cart_size cartItem) of
                   Some l \<Rightarrow>
                     (case select_size f s (cart_product_id cartItem) l of
                        None \<Rightarrow> Some 404
                      | Some sizeData \<Rightarrow> if size_stock sizeData < qty then Some 400 else None)
                 | None \<Rightarrow>
                     (case products s (cart_product_id cartItem) of
                        None \<Rightarrow> Some 500
                      | Some p \<Rightarrow> if stock p < qty then Some 400 else None)) of
             Some code \<Rightarrow> (code, s)
           | None \<Rightarrow>
               if updateError f then (500, s)
               else (case products s (cart_product_id cartItem) of None \<Rightarrow> 500 | Some p \<Rightarrow> 200,
                     set_cart_quantity s iid qty)))"

definition removeFromCart :: "faults \<Rightarrow> 'n store \<Rightarrow> user \<Rightarrow> nat \<Rightarrow> nat \<times> 'n store" where
  "removeFromCart f s usr iid =
     (case (if checkError f then None else find_cart_item s iid (req_user_id usr)) of
        None \<Rightarrow> (404, s)
      | Some cartItem \<Rightarrow>
          if deleteError f then (500, s)
          else (200, s\<lparr>cart_items := filter (\<lambda>row. cart_item_id row \<noteq> iid) (cart_items s)\<rparr>))"

definition clearCart :: "faults \<Rightarrow> 'n store \<Rightarrow> user \<Rightarrow> nat \<times> 'n store" where
  "clearCart f s usr =
     (if deleteError f then (500, s)
      else (200,
            s\<lparr>cart_items := filter (\<lambda>row. cart_user_id row \<noteq> req_user_id usr) (cart_items s)\<rparr>))"

section \<open>Sequences of requests\<close>

text \<open>
  A request to one of the operations that write; requests are handled one at a time,
  each to completion, each with its own behaviour of the store.
\<close>

datatype request =
    CreateOrder user "req_item list"
  | CancelOrder user nat
  | PutOrderStatus user nat string
  | AddToCart user nat int "string option"
  | UpdateCartItem user nat int
  | RemoveFromCart user nat
  | ClearCart user

fun handle :: "'n number_ops \<Rightarrow> faults \<Rightarrow> request \<Rightarrow> 'n store \<Rightarrow> 'n store" where
  "handle ar f (CreateOrder usr items) s = snd (createOrder ar f s usr items)"
| "handle ar f (CancelOrder usr oid) s = snd (cancelOrder f s usr oid)"
| "handle ar f (PutOrderStatus usr oid st) s = snd (put_order_status f s usr oid st)"
| "handle ar f (AddToCart usr pid qty sz) s = snd (addToCart f s usr pid qty sz)"
| "handle ar f (UpdateCartItem usr iid qty) s = snd (updateCartItem f s usr iid qty)"
| "handle ar f (RemoveFromCart usr iid) s = snd (removeFromCart f s usr iid)"
| "handle ar f (ClearCart usr) s = snd (clearCart f s usr)"

fun run :: "'n number_ops \<Rightarrow> (faults \<times> request) list \<Rightarrow> 'n store \<Rightarrow> 'n store" where
  "run ar [] s = s"
| "run ar ((f, rq) # rest) s = run ar rest (handle ar f rq s)"

section \<open>Vocabulary of the specification\<close>

text \<open>
  The quantity a list of line items asks of one stock row: of a product's general stock
  (the items without a size), and of a per-size row.
\<close>

definition general_qty :: "('a line_item_scheme) list \<Rightarrow> nat \<Rightarrow> int" where
  "general_qty items pid =
     sum_list (map quantity
       (filter (\<lambda>item. size_or_null (size_opt item) = None \<and> product_id item = pid) items))"

definition size_qty :: "('a line_item_scheme) list \<Rightarrow> nat \<Rightarrow> string \<Rightarrow> int" where
  "size_qty items pid sz =
     sum_list (map quantity
       (filter (\<lambda>item. size_or_null (size_opt item) = Some sz \<and> product_id item = pid) items))"

text \<open>The invariant of the data model (3): no stock count, general or per-size, is negative.\<close>

definition stock_nonneg :: "'n store \<Rightarrow> bool" where
  "stock_nonneg s \<longleftrightarrow>
     (\<forall>pid p. products s pid = Some p \<longrightarrow> 0 \<le> stock p) \<and>
     (\<forall>pid sz row. product_sizes s (pid, sz) = Some row \<longrightarrow> 0 \<le> size_stock row)"

text \<open>The current catalog price of a product.\<close>

definition catalog_price :: "'n number_ops \<Rightarrow> 'n store \<Rightarrow> nat \<Rightarrow> 'n" where
  "catalog_price ar s pid = (case products s pid of None \<Rightarrow> js_zero ar | Some p \<Rightarrow> price p)"

text \<open>
  The sum of catalog price times quantity over the items, taken the way the program
  takes it: from 0, in request order, in the arithmetic \<open>ar\<close>.
\<close>

definition js_total :: "'n number_ops \<Rightarrow> 'n store \<Rightarrow> 'a line_item_scheme list \<Rightarrow> 'n" where
  "js_total ar s items =
     foldl (\<lambda>total item. js_add ar total (js_mul ar (catalog_price ar s (product_id item)) (quantity item)))
       (js_zero ar) items"

text \<open>The same sum in exact integer arithmetic, for whole prices.\<close>

definition exact_total :: "int store \<Rightarrow> 'a line_item_scheme list \<Rightarrow> int" where
  "exact_total s items =
     (\<Sum>item\<leftarrow>items. catalog_price double_int s (product_id item) * quantity item)"

text \<open>
  The requested quantity exceeds the current stock of the located row: the per-size row
  when a size is given, the product's general stock otherwise.
\<close>

definition stock_exceeded :: "'n store \<Rightarrow> 'a line_item_scheme \<Rightarrow> bool" where
  "stock_exceeded s item =
     (case size_or_null (size_opt item) of
        Some sz \<Rightarrow>
          (case product_sizes s (product_id item, sz) of
             None \<Rightarrow> False
           | Some row \<Rightarrow> size_stock row < quantity item)
      | None \<Rightarrow>
          (case products s (product_id item) of
             None \<Rightarrow> False
           | Some p \<Rightarrow> stock p < quantity item))"

text \<open>The bodies that report \<open>InsufficientStock\<close>.\<close>

fun insufficient_stock_reply :: "'n body \<Rightarrow> bool" where
  "insufficient_stock_reply (InsufficientStock n) = True"
| "insufficient_stock_reply (InsufficientStockSize n sz) = True"
| "insufficient_stock_reply b = False"

section \<open>Example store and callers\<close>

definition no_faults :: faults where
  "no_faults =
     \<lparr>productError = (\<lambda>pid. False), sizeError = (\<lambda>pid sz. False), orderError = False,
      itemsError = False, deleteError = False, insertError = False,
      checkError = False, updateError = False, queryError = False\<rparr>"

definition shop :: "int store" where
  "shop =
     \<lparr>products = [1 \<mapsto> \<lparr>name = ''Kaos'', price = 50000, stock = 5\<rparr>,
                  2 \<mapsto> \<lparr>name = ''Jaket'', price = 120000, stock = 0\<rparr>],
      product_sizes = [(2, ''M'') \<mapsto> \<lparr>size_id = 1, size_stock = 4\<rparr>],
      orders = [1 \<mapsto> \<lparr>user_id = 7, total_price = 220000, status = ''pending''\<rparr>,
                2 \<mapsto> \<lparr>user_id = 8, total_price = 50000, status = ''shipped''\<rparr>],
      order_items =
        [\<lparr>product_id = 1, size_opt = None, quantity = 2, item_price = 50000, order_id = 1\<rparr>,
         \<lparr>product_id = 2, size_opt = Some ''M'', quantity = 1, item_price = 120000, order_id = 1\<rparr>,
         \<lparr>product_id = 1, size_opt = None, quantity = 1, item_price = 50000, order_id = 2\<rparr>],
      cart_items = [],
      next_order_id = 3,
      next_cart_item_id = 1\<rparr>"

text \<open>A store whose one product has a large whole price and a large stock.\<close>

definition bulk_shop :: "int store" where
  "bulk_shop =
     \<lparr>products = [1 \<mapsto> \<lparr>name = ''Kain'', price = 2147483647, stock = 2147483647\<rparr>],
      product_sizes = Map.empty,
      orders = Map.empty,
      order_items = [],
      cart_items = [],
      next_order_id = 1,
      next_cart_item_id = 1\<rparr>"

definition alice :: user where
  "alice = \<lparr>req_user_id = 7, role = ''customer''\<rparr>"

definition bob :: user where
  "bob = \<lparr>req_user_id = 8, role = ''customer''\<rparr>"

definition admin :: user where
  "admin = \<lparr>req_user_id = 1, role = ''admin''\<rparr>"

text \<open>Requests used below.\<close>

definition one_then_excess :: "req_item list" where
  "one_then_excess =
     [\<lparr>product_id = 1, size_opt = None, quantity = 1, client_price = None\<rparr>,
      \<lparr>product_id = 1, size_opt = None, quantity = 6, client_price = None\<rparr>]"

definition basket :: "req_item list" where
  "basket =
     [\<lparr>product_id = 1, size_opt = None, quantity = 2, client_price = Some 1\<rparr>,
      \<lparr>product_id = 2, size_opt = Some ''M'', quantity = 1, client_price = None\<rparr>]"

definition bulk :: "req_item list" where
  "bulk = [\<lparr>product_id = 1, size_opt = None, quantity = 2147483647, client_price = None\<rparr>]"

definition twice_three :: "req_item list" where
  "twice_three =
     [\<lparr>product_id = 1, size_opt = None, quantity = 3, client_price = None\<rparr>,
      \<lparr>product_id = 1, size_opt = None, quantity = 3, client_price = None\<rparr>]"

definition excess_then_missing :: "req_item list" where
  "excess_then_missing =
     [\<lparr>product_id = 1, size_opt = None, quantity = 6, client_price = None\<rparr>,
      \<lparr>product_id = 9, size_opt = None, quantity = 1, client_price = None\<rparr>]"

definition one_then_missing :: "req_item list" where
  "one_then_missing =
     [\<lparr>product_id = 1, size_opt = None, quantity = 1, client_price = None\<rparr>,
      \<lparr>product_id = 9, size_opt = None, quantity = 1, client_price = None\<rparr>]"

definition missing_then_excess :: "req_item list" where
  "missing_then_excess =
     [\<lparr>product_id = 9, size_opt = None, quantity = 1, client_price = None\<rparr>,
      \<lparr>product_id = 1, size_opt = None, quantity = 6, client_price = None\<rparr>]"

text \<open>A run of four requests: two orders on the same row, an addition to the cart and a cancel.\<close>

definition four_requests :: "(faults \<times> request) list" where
  "four_requests =
     [(no_faults, CreateOrder alice twice_three),
      (no_faults, CreateOrder alice twice_three),
      (no_faults, AddToCart alice 1 2 None),
      (no_faults, CancelOrder alice 1)]"

section \<open>Properties\<close>

subsection \<open>The status state machine\<close>

lemma map_of_validStatusTransitions:
  "src \<in> spec_statuses \<Longrightarrow>
   \<exists>allowed. map_of validStatusTransitions src = Some allowed \<and> set allowed = spec_allowed src"
  by (auto simp: spec_statuses_def validStatusTransitions_def spec_allowed_def)

lemma statusValidation_iff: "statusValidation st \<longleftrightarrow> st \<in> spec_statuses"
  by (auto simp: statusValidation_def spec_statuses_def)

text \<open>
  C1. For an order that exists, with both the stored status and the requested status among
  the eight statuses, and the read of the order answered by the store:
  if the requested status is in the allowed set that the specification's table gives for
  the stored status (and the store carries out the update), \<open>updateOrderStatus\<close>
  answers 200 with the updated order and the stored order has the requested status;
  for every other pair it answers 400 with the invalid-transition message and leaves the
  store as it was.
\<close>

theorem updateOrderStatus_transition_table:
  assumes "orders s oid = Some ord" and "status ord = src"
    and "src \<in> spec_statuses" and "tgt \<in> spec_statuses" and "\<not> checkError f"
  shows "(tgt \<in> spec_allowed src \<and> \<not> updateError f \<longrightarrow>
            updateOrderStatus f s oid tgt =
              (Response 200 (StatusUpdated (ord\<lparr>status := tgt\<rparr>)),
               s\<lparr>orders := (orders s)(oid \<mapsto> ord\<lparr>status := tgt\<rparr>)\<rparr>)) \<and>
         (tgt \<notin> spec_allowed src \<longrightarrow>
            updateOrderStatus f s oid tgt = (Response 400 (InvalidTransition src tgt), s))"
proof -
  from assms(3) obtain allowed where
    a: "map_of validStatusTransitions src = Some allowed" "set allowed = spec_allowed src"
    using map_of_validStatusTransitions by blast
  have v: "statusValidation tgt"
    using assms(4) by (simp add: statusValidation_iff)
  show ?thesis
    using assms(1,2,5) a v
    by (simp add: updateOrderStatus_def select_order_def update_order_status_def)
qed

theorem updateOrderStatus_transition_table_witness:
  "orders shop 1 = Some \<lparr>user_id = 7, total_price = 220000, status = ''pending''\<rparr> \<and>
   ''pending'' \<in> spec_statuses \<and> ''processing'' \<in> spec_statuses \<and>
   ''shipped'' \<in> spec_statuses \<and> \<not> checkError no_faults \<and> \<not> updateError no_faults \<and>
   ''processing'' \<in> spec_allowed ''pending'' \<and>
   updateOrderStatus no_faults shop 1 ''processing'' =
     (Response 200 (StatusUpdated \<lparr>user_id = 7, total_price = 220000, status = ''processing''\<rparr>),
      shop\<lparr>orders := (orders shop)(1 \<mapsto> \<lparr>user_id = 7, total_price = 220000, status = ''processing''\<rparr>)\<rparr>) \<and>
   ''shipped'' \<notin> spec_allowed ''pending'' \<and>
   updateOrderStatus no_faults shop 1 ''shipped'' =
     (Response 400 (InvalidTransition ''pending'' ''shipped''), shop)"
proof -
  let ?ord = "\<lparr>user_id = 7, total_price = 220000, status = ''pending''\<rparr>"
  have o: "orders shop 1 = Some ?ord" by (simp add: shop_def)
  have st: "status ?ord = ''pending''" by simp
  have m: "''pending'' \<in> spec_statuses" "''processing'' \<in> spec_statuses"
    "''shipped'' \<in> spec_statuses"
    by (simp_all add: spec_statuses_def)
  have nf: "\<not> checkError no_faults" "\<not> updateError no_faults"
    by (simp_all add: no_faults_def)
  have al: "''processing'' \<in> spec_allowed ''pending''" "''shipped'' \<notin> spec_allowed ''pending''"
    by (simp_all add: spec_allowed_def)
  note t1 = updateOrderStatus_transition_table [OF o st m(1) m(2) nf(1)]
  note t2 = updateOrderStatus_transition_table [OF o st m(1) m(3) nf(1)]
  from t1 al(1) nf(2) have r1:
    "updateOrderStatus no_faults shop 1 ''processing'' =
       (Response 200 (StatusUpdated (?ord\<lparr>status := ''processing''\<rparr>)),
        shop\<lparr>orders := (orders shop)(1 \<mapsto> ?ord\<lparr>status := ''processing''\<rparr>)\<rparr>)"
    by blast
  from t2 al(2) have r2:
    "updateOrderStatus no_faults shop 1 ''shipped'' =
       (Response 400 (InvalidTransition ''pending'' ''shipped''), shop)"
    by blast
  from r1 have r1': "updateOrderStatus no_faults shop 1 ''processing'' =
     (Response 200 (StatusUpdated \<lparr>user_id = 7, total_price = 220000, status = ''processing''\<rparr>),
      shop\<lparr>orders := (orders shop)(1 \<mapsto> \<lparr>user_id = 7, total_price = 220000, status = ''processing''\<rparr>)\<rparr>)"
    by simp
  show ?thesis
    using o m nf al r1' r2 by blast
qed

subsection \<open>Stock adjustment\<close>

text \<open>
  The value the stock loops send is never a number, so no iteration changes the store.
\<close>

lemma update_stock_unchanged: "update_stock fn item s = s"
  by (simp add: update_stock_def update_product_stock_def update_size_stock_def
        split: option.splits)

lemma reserve_unchanged: "reserve items s = s"
  by (induction items arbitrary: s) (simp_all add: update_stock_unchanged)

lemma release_unchanged: "release items s = s"
  by (induction items arbitrary: s) (simp_all add: update_stock_unchanged)

text \<open>
  C2. For every list of line items and every store, the release loop of \<open>cancelOrder\<close>
  run after the reserve loop of \<open>createOrder\<close> leaves the store, and so every general
  and per-size stock row, as it was before the reservation, whether or not the two
  loops are given identical items. The reserve loop itself already leaves every stock
  row at its value.
\<close>

theorem reserve_release_restores_stock:
  "release items' (reserve items s) = s \<and>
   products (reserve items s) = products s \<and>
   product_sizes (reserve items s) = product_sizes s"
  by (simp add: reserve_unchanged release_unchanged)

theorem reserve_release_restores_stock_witness:
  "release (select_order_items shop 1)
     (reserve
        [\<lparr>product_id = 1, size_opt = None, quantity = 2, item_price = 50000\<rparr>,
         \<lparr>product_id = 2, size_opt = Some ''M'', quantity = 1, item_price = (120000::int)\<rparr>] shop) = shop \<and>
   products
     (reserve
        [\<lparr>product_id = 1, size_opt = None, quantity = 2, item_price = 50000\<rparr>,
         \<lparr>product_id = 2, size_opt = Some ''M'', quantity = 1, item_price = (120000::int)\<rparr>] shop) =
     products shop"
  using reserve_release_restores_stock
    [of "select_order_items shop 1"
        "[\<lparr>product_id = 1, size_opt = None, quantity = 2, item_price = 50000\<rparr>,
          \<lparr>product_id = 2, size_opt = Some ''M'', quantity = 1, item_price = (120000::int)\<rparr>]" shop]
  by blast

subsection \<open>Doubles on whole numbers\<close>

declare shift_of.simps [simp del]

lemma js_round_small: "\<bar>n\<bar> < 9007199254740992 \<Longrightarrow> js_round n = n"
proof -
  assume a: "\<bar>n\<bar> < 9007199254740992"
  then have "nat \<bar>n\<bar> < 9007199254740992" by simp
  then have "shift_of (nat \<bar>n\<bar>) = 0"
    by (subst shift_of.simps) simp
  then have "js_round n = sgn n * \<bar>n\<bar>"
    by (simp add: js_round_def)
  then show ?thesis by (metis mult_sgn_abs)
qed

lemma shift_of_bulk: "shift_of 4611686014132420609 = 9" "shift_of 4611686014132420608 = 9"
  by (simp_all add: shift_of.simps)

lemma js_round_bulk:
  "js_round 4611686014132420609 = 4611686014132420608"
  "js_round 4611686014132420608 = 4611686014132420608"
  by (simp_all add: js_round_def shift_of_bulk)

subsection \<open>Evaluating the handlers on the example store\<close>

lemmas eval_defs =
  createOrder_def orderValidation_def verify_item_def select_product_def select_size_def
  size_or_null_def insert_order_def insert_order_items_def to_order_item_def
  reserve_unchanged release_unchanged double_int_def js_round_small
  no_faults_def shop_def alice_def bob_def admin_def

subsection \<open>createOrder: totals and captured prices\<close>

lemma verify_item_Inr:
  "verify_item f s item = Inr p \<Longrightarrow> products s (product_id item) = Some p"
  by (auto simp: verify_item_def select_product_def split: option.splits if_splits)

lemma verify_items_Inr:
  "verify_items ar f s items t v = Inr (t', v') \<Longrightarrow>
   t' = foldl (\<lambda>total item.
               js_add ar total (js_mul ar (catalog_price ar s (product_id item)) (quantity item)))
          t items \<and>
   v' = v @ map (\<lambda>item. \<lparr>product_id = product_id item, size_opt = size_or_null (size_opt item),
                          quantity = quantity item,
                          item_price = catalog_price ar s (product_id item)\<rparr>) items"
proof (induction items arbitrary: t v)
  case Nil
  then show ?case by simp
next
  case (Cons item items)
  from Cons.prems obtain p where p: "verify_item f s item = Inr p"
    by (auto split: sum.splits)
  then have c: "catalog_price ar s (product_id item) = price p"
    by (simp add: catalog_price_def verify_item_Inr)
  from Cons.prems p have
    "verify_items ar f s items (js_add ar t (js_mul ar (price p) (quantity item)))
       (v @ [\<lparr>product_id = product_id item, size_opt = size_or_null (size_opt item),
              quantity = quantity item, item_price = price p\<rparr>]) = Inr (t', v')"
    by simp
  from Cons.IH [OF this] show ?case
    by (simp add: c)
qed

lemma verify_item_client_price:
  "verify_item f s (item\<lparr>client_price := c\<rparr>) = verify_item f s item"
  by (simp add: verify_item_def split: option.splits)

lemma verify_items_client_price:
  "verify_items ar f s (map (\<lambda>item. item\<lparr>client_price := cp item\<rparr>) items) t v =
   verify_items ar f s items t v"
  by (induction items arbitrary: t v) (simp_all add: verify_item_client_price split: sum.splits)

lemma orderValidation_client_price:
  "orderValidation (map (\<lambda>item. item\<lparr>client_price := cp item\<rparr>) items) = orderValidation items"
  by (simp add: orderValidation_def list.pred_map comp_def)

lemma createOrder_client_price:
  "createOrder ar f s usr (map (\<lambda>item. item\<lparr>client_price := cp item\<rparr>) items) =
   createOrder ar f s usr items"
  by (simp add: createOrder_def verify_items_client_price orderValidation_client_price)

lemma verify_item_status: "verify_item f s item = Inl r \<Longrightarrow> http_status r = 400"
  by (auto simp: verify_item_def split: option.splits if_splits)

lemma verify_items_status: "verify_items ar f s items t v = Inl r \<Longrightarrow> http_status r = 400"
  by (induction items arbitrary: t v) (auto split: sum.splits dest: verify_item_status)

lemma createOrder_201:
  assumes "createOrder ar f s usr items = (r, s')" and "http_status r = 201"
  shows "\<exists>t v. verify_items ar f s items (js_zero ar) [] = Inr (t, v) \<and>
           r = Response 201 (OrderCreated (next_order_id s) t) \<and>
           s' = s\<lparr>orders := (orders s)(next_order_id s \<mapsto>
                        \<lparr>user_id = req_user_id usr, total_price = t, status = ''pending''\<rparr>),
                   next_order_id := Suc (next_order_id s),
                   order_items := order_items s @ map (to_order_item (next_order_id s)) v\<rparr>"
  using assms
  by (auto simp: createOrder_def insert_order_def insert_order_items_def reserve_unchanged
           split: if_splits sum.splits option.splits prod.splits dest: verify_items_status)

text \<open>
  C4, as stated, asks for the exact sum of price times quantity. The handler computes in
  JavaScript numbers: for one item of 2147483647 units at the whole price 2147483647
  the exact product is 4611686014132420609, and the total the handler reports and
  stores is 4611686014132420608.
\<close>

theorem createOrder_total_price_counterexample:
  "fst (createOrder double_int no_faults bulk_shop alice bulk) =
     Response 201 (OrderCreated 1 4611686014132420608) \<and>
   orders (snd (createOrder double_int no_faults bulk_shop alice bulk)) 1 =
     Some \<lparr>user_id = 7, total_price = 4611686014132420608, status = ''pending''\<rparr> \<and>
   exact_total bulk_shop bulk = 4611686014132420609"
  by (simp add: createOrder_def orderValidation_def verify_item_def select_product_def
        size_or_null_def insert_order_def insert_order_items_def reserve_unchanged
        double_int_def js_round_small js_round_bulk exact_total_def catalog_price_def
        no_faults_def bulk_shop_def bulk_def alice_def)

text \<open>
  C4, amended. Whenever \<open>createOrder\<close> answers 201, the total it reports and stores in
  the new order is the sum of the product's current catalog price times the requested
  quantity over the requested items, as the program's number arithmetic gives it when
  the products are added one by one, from 0, in request order (\<open>js_total\<close>); the order
  items it stores carry that catalog price as their unit price; and the same request
  with any other client-supplied prices gives the same response and the same store.
\<close>

theorem createOrder_total_price:
  assumes "createOrder ar f s usr items = (r, s')" and "http_status r = 201"
  shows "r = Response 201 (OrderCreated (next_order_id s) (js_total ar s items)) \<and>
         orders s' (next_order_id s) =
           Some \<lparr>user_id = req_user_id usr, total_price = js_total ar s items,
                 status = ''pending''\<rparr> \<and>
         order_items s' =
           order_items s @
           map (\<lambda>item. \<lparr>product_id = product_id item, size_opt = size_or_null (size_opt item),
                         quantity = quantity item,
                         item_price = catalog_price ar s (product_id item),
                         order_id = next_order_id s\<rparr>) items \<and>
         createOrder ar f s usr (map (\<lambda>item. item\<lparr>client_price := cp item\<rparr>) items) = (r, s')"
proof -
  from createOrder_201 [OF assms] obtain t v where
    v: "verify_items ar f s items (js_zero ar) [] = Inr (t, v)" and
    r: "r = Response 201 (OrderCreated (next_order_id s) t)" and
    s': "s' = s\<lparr>orders := (orders s)(next_order_id s \<mapsto>
                        \<lparr>user_id = req_user_id usr, total_price = t, status = ''pending''\<rparr>),
                   next_order_id := Suc (next_order_id s),
                   order_items := order_items s @ map (to_order_item (next_order_id s)) v\<rparr>"
    by blast
  from verify_items_Inr [OF v] have
    t: "t = js_total ar s items" and
    vi: "v = map (\<lambda>item. \<lparr>product_id = product_id item, size_opt = size_or_null (size_opt item),
                          quantity = quantity item,
                          item_price = catalog_price ar s (product_id item)\<rparr>) items"
    by (simp_all add: js_total_def)
  have o: "orders s' (next_order_id s) =
           Some \<lparr>user_id = req_user_id usr, total_price = t, status = ''pending''\<rparr>"
    by (simp add: s')
  have i: "order_items s' = order_items s @ map (to_order_item (next_order_id s)) v"
    by (simp add: s')
  have m: "map (to_order_item (next_order_id s)) v =
           map (\<lambda>item. \<lparr>product_id = product_id item, size_opt = size_or_null (size_opt item),
                         quantity = quantity item,
                         item_price = catalog_price ar s (product_id item),
                         order_id = next_order_id s\<rparr>) items"
    by (simp add: vi to_order_item_def comp_def)
  show ?thesis
    using r o i m assms(1) by (simp add: t createOrder_client_price)
qed

theorem createOrder_total_price_witness:
  "http_status (fst (createOrder double_int no_faults shop alice basket)) = 201 \<and>
   fst (createOrder double_int no_faults shop alice basket) = Response 201 (OrderCreated 3 220000) \<and>
   orders (snd (createOrder double_int no_faults shop alice basket)) 3 =
     Some \<lparr>user_id = 7, total_price = 220000, status = ''pending''\<rparr> \<and>
   order_items (snd (createOrder double_int no_faults shop alice basket)) =
     order_items shop @
     [\<lparr>product_id = 1, size_opt = None, quantity = 2, item_price = 50000, order_id = 3\<rparr>,
      \<lparr>product_id = 2, size_opt = Some ''M'', quantity = 1, item_price = 120000, order_id = 3\<rparr>] \<and>
   createOrder double_int no_faults shop alice (map (\<lambda>item. item\<lparr>client_price := Some 99\<rparr>) basket) =
     createOrder double_int no_faults shop alice basket"
proof -
  have a: "createOrder double_int no_faults shop alice basket =
             (fst (createOrder double_int no_faults shop alice basket),
              snd (createOrder double_int no_faults shop alice basket))"
    by simp
  have b: "http_status (fst (createOrder double_int no_faults shop alice basket)) = 201"
    by (simp add: eval_defs basket_def)
  have n: "next_order_id shop = 3" "req_user_id alice = 7"
    by (simp_all add: shop_def alice_def)
  have t: "js_total double_int shop basket = 220000"
    by (simp add: js_total_def basket_def catalog_price_def shop_def double_int_def js_round_small)
  have i: "map (\<lambda>item. \<lparr>product_id = product_id item, size_opt = size_or_null (size_opt item),
                         quantity = quantity item,
                         item_price = catalog_price double_int shop (product_id item),
                         order_id = 3\<rparr>) basket =
     [\<lparr>product_id = 1, size_opt = None, quantity = 2, item_price = 50000, order_id = 3\<rparr>,
      \<lparr>product_id = 2, size_opt = Some ''M'', quantity = 1, item_price = 120000, order_id = 3\<rparr>]"
    by (simp add: basket_def catalog_price_def shop_def size_or_null_def)
  from createOrder_total_price [OF a b, of "\<lambda>item. Some 99"] b show ?thesis
    unfolding n t i by simp
qed

text \<open>
  With whole prices, the program's sum is the exact one as long as the numbers stay
  below \<open>2\<^sup>5\<^sup>3\<close>: there every quantity, product and partial sum is a double.
\<close>

lemma js_total_exact_step:
  "\<bar>q\<bar> < 9007199254740992 \<Longrightarrow> \<bar>p * q\<bar> < 9007199254740992 \<Longrightarrow>
   \<bar>t + p * q\<bar> < 9007199254740992 \<Longrightarrow>
   js_add double_int t (js_mul double_int p q) = t + p * q"
  by (simp add: double_int_def js_round_small)

subsection \<open>createOrder: insufficient stock\<close>

lemma stock_exceeded_verify_item:
  "stock_exceeded s item \<Longrightarrow> isl (verify_item f s item)"
  by (auto simp: stock_exceeded_def verify_item_def select_product_def select_size_def
           split: option.splits)

lemma stock_exceeded_verify_items:
  "item \<in> set items \<Longrightarrow> stock_exceeded s item \<Longrightarrow> isl (verify_items ar f s items t v)"
proof (induction items arbitrary: t v)
  case Nil
  then show ?case by simp
next
  case (Cons a items)
  show ?case
  proof (cases "verify_item f s a")
    case (Inl r)
    then show ?thesis by simp
  next
    case (Inr p)
    with Cons.prems stock_exceeded_verify_item [of s item f] have "item \<in> set items"
      by auto
    with Cons.IH Cons.prems(2) Inr show ?thesis by simp
  qed
qed

lemma verify_items_first_failure:
  "list_all (\<lambda>x. \<not> isl (verify_item f s x)) pre \<Longrightarrow> verify_item f s item = Inl r \<Longrightarrow>
   verify_items ar f s (pre @ item # post) t v = Inl r"
  by (induction pre arbitrary: t v) (auto split: sum.splits)

lemma stock_exceeded_reply:
  assumes "stock_exceeded s item" and "products s (product_id item) \<noteq> None"
    and "\<not> productError f (product_id item)" and "\<forall>sz. \<not> sizeError f (product_id item) sz"
  shows "\<exists>r. verify_item f s item = Inl r \<and> insufficient_stock_reply (json r)"
  using assms
  by (auto simp: stock_exceeded_def verify_item_def select_product_def select_size_def
           split: option.splits)

text \<open>
  C3, as stated, asks for the \<open>InsufficientStock\<close> answer whenever some requested item
  exceeds the stock of its row. The loop answers for the first item that fails a check:
  with a missing product ahead of the item that exceeds the stock, the answer is
  \<open>ProductNotFound\<close>.
\<close>

theorem createOrder_insufficient_stock_counterexample:
  "\<lparr>product_id = 1, size_opt = None, quantity = 6, client_price = None\<rparr> \<in> set missing_then_excess \<and>
   stock_exceeded shop \<lparr>product_id = 1, size_opt = None, quantity = 6, client_price = None\<rparr> \<and>
   fst (createOrder double_int no_faults shop alice missing_then_excess) = Response 400 (ProductNotFound 9) \<and>
   \<not> insufficient_stock_reply (json (fst (createOrder double_int no_faults shop alice missing_then_excess)))"
  by (simp add: eval_defs missing_then_excess_def stock_exceeded_def)

text \<open>
  C3, amended. When some requested item exceeds the current stock of its located row,
  \<open>createOrder\<close> answers 400 and leaves the whole store, the orders among it, as it
  was; and when the request passes validation, every item before that one passes its
  checks and the product and size reads of that item are answered, the body reports
  insufficient stock.
\<close>

theorem createOrder_insufficient_stock:
  assumes "item \<in> set items" and "stock_exceeded s item"
  shows "http_status (fst (createOrder ar f s usr items)) = 400 \<and>
         snd (createOrder ar f s usr items) = s \<and>
         (orderValidation items \<and> items = pre @ item # post \<and>
          list_all (\<lambda>x. \<not> isl (verify_item f s x)) pre \<and>
          products s (product_id item) \<noteq> None \<and> \<not> productError f (product_id item) \<and>
          (\<forall>sz. \<not> sizeError f (product_id item) sz) \<longrightarrow>
          insufficient_stock_reply (json (fst (createOrder ar f s usr items))))"
proof -
  from stock_exceeded_verify_items [OF assms, where ar = ar and f = f and t = "js_zero ar" and v = "[]"]
  obtain r where
    r: "verify_items ar f s items (js_zero ar) [] = Inl r"
    by (cases "verify_items ar f s items (js_zero ar) []") auto
  have a: "createOrder ar f s usr items =
             (if orderValidation items then (r, s) else (Response 400 ValidationErrors, s))"
    by (simp add: createOrder_def r)
  have b: "http_status r = 400"
    using r by (rule verify_items_status)
  have c: "insufficient_stock_reply (json (fst (createOrder ar f s usr items)))"
    if v: "orderValidation items" and i: "items = pre @ item # post"
      and p: "list_all (\<lambda>x. \<not> isl (verify_item f s x)) pre"
      and e: "products s (product_id item) \<noteq> None" "\<not> productError f (product_id item)"
         "\<forall>sz. \<not> sizeError f (product_id item) sz"
  proof -
    from stock_exceeded_reply [OF assms(2) e] obtain r' where
      r': "verify_item f s item = Inl r'" "insufficient_stock_reply (json r')"
      by blast
    from verify_items_first_failure [OF p r'(1)] r i have "r = r'"
      by simp
    with a v r'(2) show ?thesis by simp
  qed
  from a b c show ?thesis by auto
qed

theorem createOrder_insufficient_stock_witness:
  "\<lparr>product_id = 1, size_opt = None, quantity = 6, client_price = None\<rparr> \<in> set one_then_excess \<and>
   stock_exceeded shop \<lparr>product_id = 1, size_opt = None, quantity = 6, client_price = None\<rparr> \<and>
   orderValidation one_then_excess \<and>
   one_then_excess =
     [\<lparr>product_id = 1, size_opt = None, quantity = 1, client_price = None\<rparr>] @
     \<lparr>product_id = 1, size_opt = None, quantity = 6, client_price = None\<rparr> # [] \<and>
   list_all (\<lambda>x. \<not> isl (verify_item no_faults shop x))
     [\<lparr>product_id = 1, size_opt = None, quantity = 1, client_price = None\<rparr>] \<and>
   products shop 1 \<noteq> None \<and> \<not> productError no_faults 1 \<and> (\<forall>sz. \<not> sizeError no_faults 1 sz) \<and>
   http_status (fst (createOrder double_int no_faults shop alice one_then_excess)) = 400 \<and>
   snd (createOrder double_int no_faults shop alice one_then_excess) = shop \<and>
   insufficient_stock_reply (json (fst (createOrder double_int no_faults shop alice one_then_excess)))"
proof -
  let ?item = "\<lparr>product_id = 1, size_opt = None, quantity = 6, client_price = None\<rparr>"
  let ?pre = "[\<lparr>product_id = 1, size_opt = None, quantity = 1, client_price = None\<rparr>]"
  have m: "?item \<in> set one_then_excess"
    by (simp add: one_then_excess_def)
  have e: "stock_exceeded shop ?item"
    by (simp add: stock_exceeded_def size_or_null_def shop_def)
  have h: "orderValidation one_then_excess" "one_then_excess = ?pre @ ?item # []"
    "list_all (\<lambda>x. \<not> isl (verify_item no_faults shop x)) ?pre"
    "products shop 1 \<noteq> None" "\<not> productError no_faults 1" "\<forall>sz. \<not> sizeError no_faults 1 sz"
    by (simp_all add: eval_defs one_then_excess_def)
  from h(4,5,6) have h': "products shop (product_id ?item) \<noteq> None"
    "\<not> productError no_faults (product_id ?item)"
    "\<forall>sz. \<not> sizeError no_faults (product_id ?item) sz"
    by simp_all
  from createOrder_insufficient_stock
         [OF m e, where ar = double_int and f = no_faults and usr = alice and pre = ?pre and post = "[]"] h(1,2,3) h'
  have "http_status (fst (createOrder double_int no_faults shop alice one_then_excess)) = 400 \<and>
        snd (createOrder double_int no_faults shop alice one_then_excess) = shop \<and>
        insufficient_stock_reply (json (fst (createOrder double_int no_faults shop alice one_then_excess)))"
    by blast
  with m e h show ?thesis by blast
qed

subsection \<open>createOrder: a missing product or size\<close>

text \<open>
  C9, as stated, asks for the \<open>ProductNotFound\<close> answer whenever some requested item
  names a product the catalog does not have. The loop answers for the first item that
  fails a check: with an item that exceeds its stock ahead of the missing product, the
  answer is \<open>InsufficientStock\<close>.
\<close>

theorem createOrder_not_found_counterexample:
  "\<lparr>product_id = 9, size_opt = None, quantity = 1, client_price = None\<rparr> \<in> set excess_then_missing \<and>
   products shop 9 = None \<and>
   fst (createOrder double_int no_faults shop alice excess_then_missing) =
     Response 400 (InsufficientStock ''Kaos'') \<and>
   json (fst (createOrder double_int no_faults shop alice excess_then_missing)) \<noteq> ProductNotFound 9"
  by (simp add: eval_defs excess_then_missing_def)

text \<open>
  C9, amended. When the request passes validation and every item before some item
  passes its checks: if that item's product is not in the catalog, \<open>createOrder\<close>
  answers with the product-not-found message and leaves the store as it was; if the
  product is there (and its read is answered) but the item's size has no row for the
  product, it answers with the size-not-found message and leaves the store as it was.
\<close>

theorem createOrder_first_failure_not_found:
  assumes "orderValidation items" and "items = pre @ item # post"
    and "list_all (\<lambda>x. \<not> isl (verify_item f s x)) pre"
  shows "(products s (product_id item) = None \<longrightarrow>
            json (fst (createOrder ar f s usr items)) = ProductNotFound (product_id item) \<and>
            snd (createOrder ar f s usr items) = s) \<and>
         (products s (product_id item) = Some p \<and> \<not> productError f (product_id item) \<and>
          size_or_null (size_opt item) = Some sz \<and> product_sizes s (product_id item, sz) = None \<longrightarrow>
            json (fst (createOrder ar f s usr items)) = SizeNotFound sz (name p) \<and>
            snd (createOrder ar f s usr items) = s)"
proof -
  have c: "createOrder ar f s usr items = (r, s)" if "verify_item f s item = Inl r" for r
    using verify_items_first_failure
            [OF assms(3) that, where ar = ar and post = post and t = "js_zero ar" and v = "[]"]
          assms(1,2)
    by (simp add: createOrder_def)
  have a: "verify_item f s item = Inl (Response 400 (ProductNotFound (product_id item)))"
    if "products s (product_id item) = None"
    using that by (simp add: verify_item_def select_product_def)
  have b: "verify_item f s item = Inl (Response 400 (SizeNotFound sz (name p)))"
    if "products s (product_id item) = Some p" "\<not> productError f (product_id item)"
      "size_or_null (size_opt item) = Some sz" "product_sizes s (product_id item, sz) = None"
    using that by (simp add: verify_item_def select_product_def select_size_def)
  from c [OF a] c [OF b] show ?thesis by simp
qed

theorem createOrder_first_failure_not_found_witness:
  "orderValidation one_then_missing \<and>
   one_then_missing =
     [\<lparr>product_id = 1, size_opt = None, quantity = 1, client_price = None\<rparr>] @
     \<lparr>product_id = 9, size_opt = None, quantity = 1, client_price = None\<rparr> # [] \<and>
   list_all (\<lambda>x. \<not> isl (verify_item no_faults shop x))
     [\<lparr>product_id = 1, size_opt = None, quantity = 1, client_price = None\<rparr>] \<and>
   products shop 9 = None \<and>
   json (fst (createOrder double_int no_faults shop alice one_then_missing)) = ProductNotFound 9 \<and>
   snd (createOrder double_int no_faults shop alice one_then_missing) = shop \<and>
   orderValidation [\<lparr>product_id = 1, size_opt = Some ''XL'', quantity = 1, client_price = None\<rparr>] \<and>
   products shop 1 = Some \<lparr>name = ''Kaos'', price = 50000, stock = 5\<rparr> \<and>
   \<not> productError no_faults 1 \<and> product_sizes shop (1, ''XL'') = None \<and>
   json (fst (createOrder double_int no_faults shop alice
     [\<lparr>product_id = 1, size_opt = Some ''XL'', quantity = 1, client_price = None\<rparr>])) =
     SizeNotFound ''XL'' ''Kaos'' \<and>
   snd (createOrder double_int no_faults shop alice
     [\<lparr>product_id = 1, size_opt = Some ''XL'', quantity = 1, client_price = None\<rparr>]) = shop"
proof -
  let ?ok = "\<lparr>product_id = 1, size_opt = None, quantity = 1, client_price = None\<rparr>"
  let ?missing = "\<lparr>product_id = 9, size_opt = None, quantity = 1, client_price = None\<rparr>"
  let ?xl = "\<lparr>product_id = 1, size_opt = Some ''XL'', quantity = 1, client_price = None\<rparr>"
  let ?kaos = "\<lparr>name = ''Kaos'', price = 50000, stock = 5\<rparr>"
  have v: "orderValidation one_then_missing" "one_then_missing = [?ok] @ ?missing # []"
    "list_all (\<lambda>x. \<not> isl (verify_item no_faults shop x)) [?ok]"
    by (simp_all add: eval_defs one_then_missing_def)
  have w: "orderValidation [?xl]" "[?xl] = [] @ ?xl # []"
    "list_all (\<lambda>x. \<not> isl (verify_item no_faults shop x)) []"
    by (simp_all add: orderValidation_def)
  have h: "products shop 9 = None" "products shop 1 = Some ?kaos" "\<not> productError no_faults 1"
    "product_sizes shop (1, ''XL'') = None"
    by (simp_all add: shop_def no_faults_def)
  have h': "products shop (product_id ?missing) = None"
    "products shop (product_id ?xl) = Some ?kaos \<and> \<not> productError no_faults (product_id ?xl) \<and>
     size_or_null (size_opt ?xl) = Some ''XL'' \<and> product_sizes shop (product_id ?xl, ''XL'') = None"
    using h by (simp_all add: size_or_null_def)
  from createOrder_first_failure_not_found [OF v, where ar = double_int and usr = alice] h'(1)
  have a: "json (fst (createOrder double_int no_faults shop alice one_then_missing)) = ProductNotFound 9"
    "snd (createOrder double_int no_faults shop alice one_then_missing) = shop"
    by simp_all
  from createOrder_first_failure_not_found
         [OF w, where ar = double_int and usr = alice and p = ?kaos and sz = "''XL''"] h'(2)
  have b: "json (fst (createOrder double_int no_faults shop alice [?xl])) = SizeNotFound ''XL'' ''Kaos''"
    "snd (createOrder double_int no_faults shop alice [?xl]) = shop"
    by simp_all
  from v w(1) h a b show ?thesis by blast
qed

text \<open>
  The status of both answers is 400: \<open>createOrder\<close> has no answer with status 404.
  (\<open>addToCart\<close> answers 404 for the same two lookups.)
\<close>

lemma verify_items_never_404: "verify_items ar f s items t v = Inl r \<Longrightarrow> http_status r \<noteq> 404"
  by (drule verify_items_status) simp

lemma createOrder_never_404: "http_status (fst (createOrder ar f s usr items)) \<noteq> 404"
  by (auto simp: createOrder_def split: sum.splits option.splits prod.splits
           dest: verify_items_never_404)

lemma createOrder_not_found_answers_400:
  "createOrder double_int no_faults shop alice
     [\<lparr>product_id = 9, size_opt = None, quantity = 1, client_price = None\<rparr>] =
     (Response 400 (ProductNotFound 9), shop) \<and>
   createOrder double_int no_faults shop alice
     [\<lparr>product_id = 1, size_opt = Some ''XL'', quantity = 1, client_price = None\<rparr>] =
     (Response 400 (SizeNotFound ''XL'' ''Kaos''), shop)"
  by (simp add: eval_defs)

subsection \<open>Non-negative stock\<close>

text \<open>
  No operation changes a stock row: the stock loops of \<open>createOrder\<close> and
  \<open>cancelOrder\<close> leave the store as it is, \<open>updateOrderStatus\<close> writes
  \<open>orders\<close> only, and the cart handlers write \<open>cart_items\<close> only.
\<close>

lemma createOrder_stock_rows:
  "products (snd (createOrder ar f s usr items)) = products s \<and>
   product_sizes (snd (createOrder ar f s usr items)) = product_sizes s"
  by (simp add: createOrder_def insert_order_def insert_order_items_def delete_order_def
        reserve_unchanged split: sum.splits option.splits prod.splits)

lemma cancelOrder_stock_rows:
  "products (snd (cancelOrder f s usr oid)) = products s \<and>
   product_sizes (snd (cancelOrder f s usr oid)) = product_sizes s"
  by (simp add: cancelOrder_def update_order_status_def release_unchanged split: option.splits)

lemma updateOrderStatus_stock_rows:
  "products (snd (updateOrderStatus f s oid st)) = products s \<and>
   product_sizes (snd (updateOrderStatus f s oid st)) = product_sizes s"
  by (simp add: updateOrderStatus_def update_order_status_def split: option.splits)

lemma put_order_status_stock_rows:
  "products (snd (put_order_status f s usr oid st)) = products s \<and>
   product_sizes (snd (put_order_status f s usr oid st)) = product_sizes s"
  by (simp add: put_order_status_def updateOrderStatus_stock_rows split: option.splits)

lemma set_cart_quantity_stock_rows:
  "products (set_cart_quantity s iid q) = products s \<and>
   product_sizes (set_cart_quantity s iid q) = product_sizes s"
  by (simp add: set_cart_quantity_def)

lemma addToCart_stock_rows:
  "products (snd (addToCart f s usr pid qty sz)) = products s \<and>
   product_sizes (snd (addToCart f s usr pid qty sz)) = product_sizes s"
  by (simp add: addToCart_def set_cart_quantity_stock_rows split: option.splits list.splits)

lemma updateCartItem_stock_rows:
  "products (snd (updateCartItem f s usr iid qty)) = products s \<and>
   product_sizes (snd (updateCartItem f s usr iid qty)) = product_sizes s"
  by (simp add: updateCartItem_def set_cart_quantity_stock_rows split: option.splits)

lemma removeFromCart_stock_rows:
  "products (snd (removeFromCart f s usr iid)) = products s \<and>
   product_sizes (snd (removeFromCart f s usr iid)) = product_sizes s"
  by (simp add: removeFromCart_def split: option.splits)

lemma clearCart_stock_rows:
  "products (snd (clearCart f s usr)) = products s \<and>
   product_sizes (snd (clearCart f s usr)) = product_sizes s"
  by (simp add: clearCart_def)

lemma handle_stock_rows:
  "products (handle ar f rq s) = products s \<and> product_sizes (handle ar f rq s) = product_sizes s"
  by (cases rq)
     (simp_all add: createOrder_stock_rows cancelOrder_stock_rows put_order_status_stock_rows
        addToCart_stock_rows updateCartItem_stock_rows removeFromCart_stock_rows
        clearCart_stock_rows)

lemma run_stock_rows:
  "products (run ar reqs s) = products s \<and> product_sizes (run ar reqs s) = product_sizes s"
  by (induction reqs arbitrary: s) (auto simp: handle_stock_rows)

lemma stock_nonneg_rows:
  "products s' = products s \<Longrightarrow> product_sizes s' = product_sizes s \<Longrightarrow> stock_nonneg s \<Longrightarrow>
   stock_nonneg s'"
  by (simp add: stock_nonneg_def)

text \<open>
  C5. From a store in which no stock count, general or per-size, is negative, every
  request to \<open>createOrder\<close>, \<open>cancelOrder\<close>, the status route or one of the cart
  handlers that write, under any behaviour of the store, leaves a store in which none is
  negative; and so does every sequence of such requests handled one after the other.
\<close>

theorem operations_keep_stock_nonneg:
  assumes "stock_nonneg s"
  shows "stock_nonneg (handle ar f rq s) \<and> stock_nonneg (run ar reqs s)"
proof
  from handle_stock_rows [of ar f rq s] assms show "stock_nonneg (handle ar f rq s)"
    by (blast intro: stock_nonneg_rows)
  from run_stock_rows [of ar reqs s] assms show "stock_nonneg (run ar reqs s)"
    by (blast intro: stock_nonneg_rows)
qed

theorem operations_keep_stock_nonneg_witness:
  "stock_nonneg shop \<and>
   stock_nonneg (handle double_int no_faults (CreateOrder alice twice_three) shop) \<and>
   stock_nonneg (run double_int four_requests shop)"
proof -
  have a: "stock_nonneg shop"
    by (auto simp: stock_nonneg_def shop_def split: if_splits)
  from a operations_keep_stock_nonneg
         [OF a, of double_int no_faults "CreateOrder alice twice_three" four_requests]
  show ?thesis by blast
qed

text \<open>
  What the run of the witness does: both orders for twice 3 units of product 1 are
  created, 2 units go into the cart, order 1 is cancelled, and product 1 holds its
  5 units throughout.
\<close>

lemma four_requests_run:
  "map_option total_price (orders (run double_int four_requests shop) 3) = Some 300000 \<and>
   map_option total_price (orders (run double_int four_requests shop) 4) = Some 300000 \<and>
   map_option status (orders (run double_int four_requests shop) 1) = Some ''cancelled'' \<and>
   map cart_quantity (cart_items (run double_int four_requests shop)) = [2] \<and>
   products (run double_int four_requests shop) 1 =
     Some \<lparr>name = ''Kaos'', price = 50000, stock = 5\<rparr>"
  by (simp add: four_requests_def twice_three_def eval_defs cancelOrder_def select_order_def
        update_order_status_def select_order_items_def addToCart_def cart_stock_check_def
        eq_size_def)

subsection \<open>cancelOrder\<close>

text \<open>
  What \<open>cancelOrder\<close> does for the owner of the order, when the store answers the read
  of the order: from \<open>pending\<close> or \<open>processing\<close>, and with the update carried out,
  it answers 200 and the only change to the store is the order's status; from any
  other status it answers 400 and changes nothing.
\<close>

lemma cancelOrder_by_owner_effect:
  assumes "orders s oid = Some ord" and "user_id ord = req_user_id usr" and "\<not> orderError f"
  shows "((status ord = ''pending'' \<or> status ord = ''processing'') \<and> \<not> updateError f \<longrightarrow>
            cancelOrder f s usr oid =
              (Response 200 (OrderCancelled (ord\<lparr>status := ''cancelled''\<rparr>)),
               s\<lparr>orders := (orders s)(oid \<mapsto> ord\<lparr>status := ''cancelled''\<rparr>)\<rparr>)) \<and>
         (status ord \<noteq> ''pending'' \<and> status ord \<noteq> ''processing'' \<longrightarrow>
            cancelOrder f s usr oid = (Response 400 (NotCancellable (status ord)), s))"
  using assms
  by (auto simp: cancelOrder_def select_order_def update_order_status_def release_unchanged)

text \<open>
  C7 does not hold of the code. In the example store order 1 belongs to the caller, is
  \<open>pending\<close>, and its line items hold 2 units of product 1 and 1 unit of size M of
  product 2. The owner's cancel is answered 200 and the order becomes \<open>cancelled\<close>,
  but no stock is restored: product 1 keeps its 5 units and the size row its 4.
\<close>

theorem owner_cancel_restores_no_stock:
  "orders shop 1 = Some \<lparr>user_id = 7, total_price = 220000, status = ''pending''\<rparr> \<and>
   req_user_id alice = 7 \<and>
   general_qty (select_order_items shop 1) 1 = 2 \<and>
   size_qty (select_order_items shop 1) 2 ''M'' = 1 \<and>
   products shop 1 = Some \<lparr>name = ''Kaos'', price = 50000, stock = 5\<rparr> \<and>
   product_sizes shop (2, ''M'') = Some \<lparr>size_id = 1, size_stock = 4\<rparr> \<and>
   cancelOrder no_faults shop alice 1 =
     (Response 200 (OrderCancelled \<lparr>user_id = 7, total_price = 220000, status = ''cancelled''\<rparr>),
      shop\<lparr>orders := (orders shop)(1 \<mapsto> \<lparr>user_id = 7, total_price = 220000, status = ''cancelled''\<rparr>)\<rparr>) \<and>
   products (snd (cancelOrder no_faults shop alice 1)) 1 =
     Some \<lparr>name = ''Kaos'', price = 50000, stock = 5\<rparr> \<and>
   product_sizes (snd (cancelOrder no_faults shop alice 1)) (2, ''M'') =
     Some \<lparr>size_id = 1, size_stock = 4\<rparr>"
  by (simp add: cancelOrder_def select_order_def update_order_status_def release_unchanged
        general_qty_def size_qty_def select_order_items_def size_or_null_def
        no_faults_def shop_def alice_def)

text \<open>
  C10. A caller who is not an admin and asks to cancel an existing order of another user
  is answered 403 (when the store answers the read of the order), and the store, the
  order's status and every stock row with it, is unchanged.
\<close>

theorem cancelOrder_other_owner_forbidden:
  assumes "role usr \<noteq> ''admin''" and "orders s oid = Some ord"
    and "user_id ord \<noteq> req_user_id usr" and "\<not> orderError f"
  shows "cancelOrder f s usr oid = (Response 403 Forbidden, s)"
  using assms by (simp add: cancelOrder_def select_order_def)

theorem cancelOrder_other_owner_forbidden_witness:
  "role bob \<noteq> ''admin'' \<and>
   orders shop 1 = Some \<lparr>user_id = 7, total_price = 220000, status = ''pending''\<rparr> \<and>
   req_user_id bob \<noteq> 7 \<and> \<not> orderError no_faults \<and>
   cancelOrder no_faults shop bob 1 = (Response 403 Forbidden, shop)"
proof -
  let ?o1 = "\<lparr>user_id = 7, total_price = 220000, status = ''pending''\<rparr>"
  have r: "role bob \<noteq> ''admin''" by (simp add: bob_def)
  have o: "orders shop 1 = Some ?o1" by (simp add: shop_def)
  have u: "req_user_id bob \<noteq> 7" by (simp add: bob_def)
  then have u': "user_id ?o1 \<noteq> req_user_id bob" by simp
  have nf: "\<not> orderError no_faults" by (simp add: no_faults_def)
  from r o u nf cancelOrder_other_owner_forbidden [OF r o u' nf] show ?thesis by blast
qed

text \<open>
  C6 does not hold of the admin route. On the example store, where order 1 is
  \<open>pending\<close> and its line items hold 2 units of product 1 and 1 unit of size M of
  product 2, an admin's \<open>PUT /orders/1/status\<close> with \<open>cancelled\<close> is answered 200
  and stores the status \<open>cancelled\<close>; no release loop is run and no stock row changes.
\<close>

theorem admin_cancel_releases_no_stock:
  "general_qty (select_order_items shop 1) 1 = 2 \<and>
   size_qty (select_order_items shop 1) 2 ''M'' = 1 \<and>
   fst (put_order_status no_faults shop admin 1 ''cancelled'') =
     Response 200 (StatusUpdated \<lparr>user_id = 7, total_price = 220000, status = ''cancelled''\<rparr>) \<and>
   orders (snd (put_order_status no_faults shop admin 1 ''cancelled'')) 1 =
     Some \<lparr>user_id = 7, total_price = 220000, status = ''cancelled''\<rparr> \<and>
   products (snd (put_order_status no_faults shop admin 1 ''cancelled'')) = products shop \<and>
   product_sizes (snd (put_order_status no_faults shop admin 1 ''cancelled'')) = product_sizes shop"
  by (simp add: put_order_status_def authorize_def updateOrderStatus_def statusValidation_def
        validStatusTransitions_def select_order_def update_order_status_def
        general_qty_def size_qty_def select_order_items_def size_or_null_def
        no_faults_def shop_def admin_def)

subsection \<open>getOrderById\<close>

text \<open>
  C8. A caller who is not an admin and asks for an existing order of another user gets
  exactly the response given for an order id that does not exist; when the store answers
  the query, that response is 404 with the order-not-found message. The handler has no
  403 branch: the row is filtered out by the query.
\<close>

theorem getOrderById_scoped_to_owner:
  assumes "role usr \<noteq> ''admin''" and "orders s oid = Some ord"
    and "user_id ord \<noteq> req_user_id usr" and "orders s absent = None"
  shows "getOrderById f s usr oid = getOrderById f s usr absent \<and>
         (\<not> queryError f \<longrightarrow> getOrderById f s usr oid = Response 404 OrderNotFound)"
  using assms by (simp add: getOrderById_def scoped_order_def)

theorem getOrderById_scoped_to_owner_witness:
  "role bob \<noteq> ''admin'' \<and>
   orders shop 1 = Some \<lparr>user_id = 7, total_price = 220000, status = ''pending''\<rparr> \<and>
   req_user_id bob \<noteq> 7 \<and> orders shop 99 = None \<and> \<not> queryError no_faults \<and>
   getOrderById no_faults shop bob 1 = getOrderById no_faults shop bob 99 \<and>
   getOrderById no_faults shop bob 1 = Response 404 OrderNotFound"
proof -
  let ?o1 = "\<lparr>user_id = 7, total_price = 220000, status = ''pending''\<rparr>"
  have r: "role bob \<noteq> ''admin''" by (simp add: bob_def)
  have o: "orders shop 1 = Some ?o1" "orders shop 99 = None" by (simp_all add: shop_def)
  have u: "req_user_id bob \<noteq> 7" by (simp add: bob_def)
  then have u': "user_id ?o1 \<noteq> req_user_id bob" by simp
  have nf: "\<not> queryError no_faults" by (simp add: no_faults_def)
  from r o u nf getOrderById_scoped_to_owner [OF r o(1) u' o(2), of no_faults]
  show ?thesis by blast
qed


end
